theory Spec2Isabelle
  imports Main "HOL-Library.Sublist"
begin

section \<open>Python strings\<close>

text \<open>
  A Python \<open>str\<close> that is a path, a name or a message is modelled as a \<^typ>\<open>string\<close>:
  the bytes of its UTF-8 encoding. The operations below are the ones \<open>backend/main.py\<close>
  applies to client input: \<open>sub in s\<close>, \<open>s.replace(old, new)\<close>, \<open>s.split(sep)\<close>,
  \<open>sep.join(xs)\<close> and \<open>urllib.parse.unquote\<close>. The text of a file is modelled further
  down, as a list of code points.
\<close>

text \<open>\<open>sub in s\<close>: \<open>sub\<close> occurs in \<open>s\<close> as a contiguous substring.\<close>

fun contains :: "string \<Rightarrow> string \<Rightarrow> bool" where
  "contains sub [] = (sub = [])"
| "contains sub (c # cs) = (prefix sub (c # cs) \<or> contains sub cs)"

text \<open>
  \<open>s.replace(old, new)\<close> replaces every non-overlapping occurrence of \<open>old\<close>, scanning from
  the left. The counter of \<open>replace_from\<close> is the number of characters of a match that
  are still to be skipped. For an empty \<open>old\<close> Python puts \<open>new\<close> before every character
  and at the end.
\<close>

fun replace_from :: "nat \<Rightarrow> string \<Rightarrow> string \<Rightarrow> string \<Rightarrow> string" where
  "replace_from k [] old new = []"
| "replace_from (Suc k) (c # cs) old new = replace_from k cs old new"
| "replace_from 0 (c # cs) old new =
     (if prefix old (c # cs) then new @ replace_from (length old - 1) cs old new
      else c # replace_from 0 cs old new)"

definition replace :: "string \<Rightarrow> string \<Rightarrow> string \<Rightarrow> string" where
  "replace s old new =
     (if old = [] then new @ concat (map (\<lambda>c. c # new) s) else replace_from 0 s old new)"

text \<open>\<open>s.split(sep)\<close> for a one-character separator; the result is never empty.\<close>

fun split_on :: "char \<Rightarrow> string \<Rightarrow> string list" where
  "split_on sep [] = [[]]"
| "split_on sep (c # cs) =
     (if c = sep then [] # split_on sep cs
      else (case split_on sep cs of [] \<Rightarrow> [[c]] | w # ws \<Rightarrow> (c # w) # ws))"

text \<open>\<open>sep.join(xs)\<close>.\<close>

fun join :: "string \<Rightarrow> string list \<Rightarrow> string" where
  "join sep [] = []"
| "join sep [x] = x"
| "join sep (x # y # ys) = x @ sep @ join sep (y # ys)"

text \<open>
  \<open>urllib.parse.unquote\<close> works in two steps. First, a percent sign followed by two
  hexadecimal digits becomes the byte with that code, and any other percent sign stays;
  \<open>percent_items\<close> gives the bytes in order, each with a mark that tells whether it came
  from an escape.
\<close>

definition hexval :: "char \<Rightarrow> nat option" where
  "hexval c =
     (let n = (of_char c :: nat) in
      if 48 \<le> n \<and> n \<le> 57 then Some (n - 48)
      else if 65 \<le> n \<and> n \<le> 70 then Some (n - 55)
      else if 97 \<le> n \<and> n \<le> 102 then Some (n - 87)
      else None)"

fun percent_items :: "string \<Rightarrow> (bool \<times> char) list" where
  "percent_items [] = []"
| "percent_items (c # cs) =
     (if c = CHR ''%'' then
        (case cs of
           a # b # rest \<Rightarrow>
             (case (hexval a, hexval b) of
                (Some h, Some l) \<Rightarrow> (True, char_of (16 * h + l)) # percent_items rest
              | _ \<Rightarrow> (False, c) # percent_items cs)
         | _ \<Rightarrow> (False, c) # percent_items cs)
      else (False, c) # percent_items cs)"

text \<open>
  Second, the bytes of each stretch of ASCII input are decoded as UTF-8 with
  \<open>errors='replace'\<close>: a well-formed sequence stays, and every maximal ill-formed part
  becomes U+FFFD (in UTF-8 the bytes EF BF BD). Only bytes from escapes can be at or above
  128 in such a stretch; the other bytes at or above 128 belong to characters of the
  input and are copied. \<open>lead n\<close> gives, for a lead byte \<open>n\<close>, the number of continuation
  bytes and the range of the first of them; \<open>continuation\<close> counts how many of the
  needed continuation bytes are there.
\<close>

definition lead :: "nat \<Rightarrow> (nat \<times> nat \<times> nat) option" where
  "lead n =
     (if 194 \<le> n \<and> n \<le> 223 then Some (1, 128, 191)
      else if n = 224 then Some (2, 160, 191)
      else if (225 \<le> n \<and> n \<le> 236) \<or> n = 238 \<or> n = 239 then Some (2, 128, 191)
      else if n = 237 then Some (2, 128, 159)
      else if n = 240 then Some (3, 144, 191)
      else if 241 \<le> n \<and> n \<le> 243 then Some (3, 128, 191)
      else if n = 244 then Some (3, 128, 143)
      else None)"

fun continuation :: "nat \<Rightarrow> nat \<Rightarrow> nat \<Rightarrow> (bool \<times> char) list \<Rightarrow> nat" where
  "continuation 0 lo hi xs = 0"
| "continuation (Suc k) lo hi [] = 0"
| "continuation (Suc k) lo hi ((esc, b) # xs) =
     (if esc \<and> lo \<le> (of_char b :: nat) \<and> (of_char b :: nat) \<le> hi
      then Suc (continuation k 128 191 xs) else 0)"

function utf8_replace :: "(bool \<times> char) list \<Rightarrow> string" where
  "utf8_replace [] = []"
| "utf8_replace ((esc, b) # xs) =
     (if \<not> esc \<or> (of_char b :: nat) < 128 then b # utf8_replace xs
      else
        (case lead (of_char b) of
           None \<Rightarrow> [CHR 0xEF, CHR 0xBF, CHR 0xBD] @ utf8_replace xs
         | Some (k, lo, hi) \<Rightarrow>
             if continuation k lo hi xs = k
             then b # map snd (take k xs) @ utf8_replace (drop k xs)
             else [CHR 0xEF, CHR 0xBF, CHR 0xBD] @ utf8_replace (drop (continuation k lo hi xs) xs)))"
  by pat_completeness auto
termination
  by (relation "measure length") auto

definition unquote :: "string \<Rightarrow> string" where
  "unquote s = utf8_replace (percent_items s)"

section \<open>\<open>os.path\<close> on POSIX\<close>

definition isabs :: "string \<Rightarrow> bool" where
  "isabs s = prefix ''/'' s"

text \<open>
  \<open>os.path.join(a, b)\<close> with two arguments: an absolute \<open>b\<close> discards \<open>a\<close>; otherwise
  the two are concatenated, with a slash between them unless \<open>a\<close> is empty or already
  ends in one.
\<close>

definition os_path_join :: "string \<Rightarrow> string \<Rightarrow> string" where
  "os_path_join a b =
     (if isabs b then b
      else if a = [] \<or> suffix ''/'' a then a @ b
      else a @ ''/'' @ b)"

text \<open>
  \<open>os.path.normpath\<close>: the loop body over the components (\<open>norm_step\<close>; \<open>rooted\<close> is
  the truth value of \<open>initial_slashes\<close>), and the function itself. Exactly two leading
  slashes are kept, any other number of them becomes one.
\<close>

definition norm_step :: "bool \<Rightarrow> string list \<Rightarrow> string \<Rightarrow> string list" where
  "norm_step rooted new_comps component =
     (if component = [] \<or> component = ''.'' then new_comps
      else if component \<noteq> ''..'' \<or> (\<not> rooted \<and> new_comps = [])
              \<or> (new_comps \<noteq> [] \<and> last new_comps = ''..'')
        then new_comps @ [component]
      else if new_comps \<noteq> [] then butlast new_comps
      else new_comps)"

definition normpath :: "string \<Rightarrow> string" where
  "normpath path =
     (if path = [] then ''.''
      else
        let initial_slashes =
              (if prefix ''/'' path
               then (if prefix ''//'' path \<and> \<not> prefix ''///'' path then 2 else 1)
               else (0::nat));
            comps = foldl (norm_step (initial_slashes \<noteq> 0)) [] (split_on CHR ''/'' path);
            joined = replicate initial_slashes CHR ''/'' @ join ''/'' comps
        in if joined = [] then ''.'' else joined)"

text \<open>\<open>os.path.abspath\<close>, with the result of \<open>os.getcwd()\<close> as first argument.\<close>

definition abspath :: "string \<Rightarrow> string \<Rightarrow> string" where
  "abspath cwd path = normpath (if isabs path then path else os_path_join cwd path)"

section \<open>The file system\<close>

text \<open>
  The text of a file is the list of the Unicode code points that reading it with
  \<open>encoding='utf-8'\<close> gives.
\<close>

type_synonym unicode = "nat list"

definition ascii :: "string \<Rightarrow> unicode" where
  "ascii s = map of_char s"

text \<open>
  The container's file system is a table from canonical absolute paths (the list of
  component names below the root) to nodes: a regular file with its text, a directory,
  or a dangling symbolic link, that is, a link whose target does not exist. Links that
  lead to a file or a directory, and permissions, are not modelled. The root is a
  directory and is in no table.
\<close>

type_synonym abs_path = "string list"

datatype node = File unicode | Dir | Dangling

type_synonym filesystem = "(abs_path \<times> node) list"

definition node_at :: "filesystem \<Rightarrow> abs_path \<Rightarrow> node option" where
  "node_at fs p = (if p = [] then Some Dir else map_of fs p)"

text \<open>
  Path resolution as the kernel does it: component by component, each step from a
  directory that exists; an empty component or \<open>.\<close> stays, \<open>..\<close> goes to the parent. With
  \<open>follow\<close> (as for \<open>stat\<close>) a dangling link names nothing; without it (as for \<open>lstat\<close>
  and \<open>unlink\<close>) a dangling link in the last position is the node found.
\<close>

fun walk :: "bool \<Rightarrow> filesystem \<Rightarrow> abs_path \<Rightarrow> string list \<Rightarrow> abs_path option" where
  "walk follow fs cur [] =
     (case node_at fs cur of
        None \<Rightarrow> None
      | Some Dangling \<Rightarrow> if follow then None else Some cur
      | Some n \<Rightarrow> Some cur)"
| "walk follow fs cur (c # cs) =
     (if node_at fs cur \<noteq> Some Dir then None
      else if c = [] \<or> c = ''.'' then walk follow fs cur cs
      else if c = ''..'' then walk follow fs (butlast cur) cs
      else walk follow fs (cur @ [c]) cs)"

text \<open>
  \<open>locate cwd fs s\<close> is the canonical path of the file or directory that the path string
  \<open>s\<close> names for a process whose working directory is \<open>cwd\<close> (an absolute path), if there
  is one; \<open>llocate\<close> finds a dangling link as well. The empty string and a string with a
  NUL character name nothing.
\<close>

definition locate :: "string \<Rightarrow> filesystem \<Rightarrow> string \<Rightarrow> abs_path option" where
  "locate cwd fs s =
     (if s = [] \<or> CHR 0x00 \<in> set s then None
      else walk True fs [] (split_on CHR ''/'' (os_path_join cwd s)))"

definition llocate :: "string \<Rightarrow> filesystem \<Rightarrow> string \<Rightarrow> abs_path option" where
  "llocate cwd fs s =
     (if s = [] \<or> CHR 0x00 \<in> set s then None
      else walk False fs [] (split_on CHR ''/'' (os_path_join cwd s)))"

section \<open>Exceptions and the world\<close>

text \<open>
  The exceptions the endpoints raise or let through. \<open>HTTPException\<close> is FastAPI's; it
  derives from \<open>Exception\<close>, so a handler \<open>except Exception\<close> catches it. \<open>Dict\<close> is a
  detail given as a dictionary, \<open>Fmt p e\<close> the f-string that appends the text of the
  exception \<open>e\<close> to \<open>p\<close>.
\<close>

datatype exn =
    HTTPException nat detail
  | AttributeError
  | FileNotFoundError
  | IsADirectoryError
  | NotADirectoryError
  | OSError
  | ValueError
  | JSONDecodeError
and detail =
    Str string
  | Dict "(string \<times> string) list"
  | Fmt string exn

text \<open>
  The status the client sees: the code of an \<open>HTTPException\<close>, 500 for any other
  exception that leaves the endpoint, 200 for a returned value.
\<close>

fun status_code :: "exn + 'a \<Rightarrow> nat" where
  "status_code (Inr r) = 200"
| "status_code (Inl (HTTPException code d)) = code"
| "status_code (Inl e) = 500"

text \<open>
  What \<open>subprocess.run(cmd, capture_output=True, text=True, cwd=...)\<close> can do: the
  program exits with a code and its captured standard output and standard error, or the
  call raises (the program could not be started).
\<close>

datatype outcome = Exited int string string | Raised exn

record spawn =
  argv :: "string list"
  workdir :: string
  seen :: filesystem
  result :: outcome

text \<open>
  The world an endpoint runs in: the files, the server's working directory, the
  behaviour of the external programs (from argument vector, working directory and
  files to an outcome and the files afterwards), and the log of every program started,
  each with the files as they were at that moment.
\<close>

record world =
  files :: filesystem
  getcwd :: string
  programs :: "string list \<Rightarrow> string \<Rightarrow> filesystem \<Rightarrow> outcome \<times> filesystem"
  spawned :: "spawn list"

text \<open>
  \<open>os.path.exists\<close> and \<open>os.path.isfile\<close> follow links: for a dangling link both are
  false.
\<close>

definition os_path_exists :: "world \<Rightarrow> string \<Rightarrow> bool" where
  "os_path_exists w s = (locate (getcwd w) (files w) s \<noteq> None)"

definition os_path_isfile :: "world \<Rightarrow> string \<Rightarrow> bool" where
  "os_path_isfile w s =
     (case locate (getcwd w) (files w) s of
        None \<Rightarrow> False
      | Some p \<Rightarrow> (case node_at (files w) p of Some (File t) \<Rightarrow> True | _ \<Rightarrow> False))"

text \<open>
  \<open>os.remove\<close>: unlinks a regular file or a link, raises on a directory or a missing
  path.
\<close>

definition os_remove :: "string \<Rightarrow> world \<Rightarrow> (exn + unit) \<times> world" where
  "os_remove s w =
     (case llocate (getcwd w) (files w) s of
        None \<Rightarrow> (Inl FileNotFoundError, w)
      | Some p \<Rightarrow>
          (case node_at (files w) p of
             Some (File t) \<Rightarrow> (Inr (), w\<lparr>files := filter (\<lambda>(q, n). q \<noteq> p) (files w)\<rparr>)
           | Some Dangling \<Rightarrow> (Inr (), w\<lparr>files := filter (\<lambda>(q, n). q \<noteq> p) (files w)\<rparr>)
           | _ \<Rightarrow> (Inl IsADirectoryError, w)))"

text \<open>
  \<open>shutil.rmtree\<close>: removes a directory and everything below it, raises on a regular
  file, a dangling link or a missing path and leaves them alone. On the root it empties
  the file system and then raises, since the root itself cannot be removed.
\<close>

definition shutil_rmtree :: "string \<Rightarrow> world \<Rightarrow> (exn + unit) \<times> world" where
  "shutil_rmtree s w =
     (case llocate (getcwd w) (files w) s of
        None \<Rightarrow> (Inl FileNotFoundError, w)
      | Some p \<Rightarrow>
          (case node_at (files w) p of
             Some Dir \<Rightarrow>
               (if p = [] then (Inl OSError, w\<lparr>files := []\<rparr>)
                else (Inr (), w\<lparr>files := filter (\<lambda>(q, n). \<not> prefix p q) (files w)\<rparr>))
           | Some Dangling \<Rightarrow> (Inl FileNotFoundError, w)
           | _ \<Rightarrow> (Inl NotADirectoryError, w)))"

text \<open>\<open>subprocess.run\<close>: the program acts on the files, and the start is logged.\<close>

definition subprocess_run :: "string list \<Rightarrow> string \<Rightarrow> world \<Rightarrow> outcome \<times> world" where
  "subprocess_run cmd dir w =
     (case programs w cmd dir (files w) of
        (out, fs) \<Rightarrow>
          (out, w\<lparr>files := fs,
                  spawned := spawned w @
                    [\<lparr>argv = cmd, workdir = dir, seen = files w, result = out\<rparr>]\<rparr>))"

section \<open>\<open>pathlib\<close>\<close>

text \<open>
  A \<open>pathlib.Path\<close> built from an absolute string is the list of its components;
  empty components and \<open>.\<close> are dropped on construction, \<open>..\<close> is kept. \<open>joinpath\<close> with
  an absolute argument gives that argument. \<open>resolve\<close> removes each \<open>..\<close> together with
  the component before it, and raises \<open>ValueError\<close> for a component with a NUL
  character. (Python's \<open>resolve\<close> also replaces a symbolic link by its target; for a path
  through a dangling link the model keeps the link's own name.) \<open>base in p.parents\<close>
  holds when \<open>base\<close> is a proper ancestor of \<open>p\<close>, written \<open>strict_prefix base p\<close>.
\<close>

definition pure_parts :: "string \<Rightarrow> string list" where
  "pure_parts s = filter (\<lambda>c. c \<noteq> [] \<and> c \<noteq> ''.'') (split_on CHR ''/'' s)"

definition joinpath :: "string list \<Rightarrow> string \<Rightarrow> string list" where
  "joinpath base s = (if isabs s then pure_parts s else base @ pure_parts s)"

definition resolve :: "string list \<Rightarrow> exn + abs_path" where
  "resolve parts =
     (if \<exists>c \<in> set parts. CHR 0x00 \<in> set c then Inl ValueError
      else Inr (foldl (\<lambda>acc c. if c = ''..'' then butlast acc else acc @ [c]) [] parts))"

definition is_file :: "world \<Rightarrow> abs_path \<Rightarrow> bool" where
  "is_file w p =
     (case walk True (files w) [] p of
        None \<Rightarrow> False
      | Some q \<Rightarrow> (case node_at (files w) q of Some (File t) \<Rightarrow> True | _ \<Rightarrow> False))"

definition read_text :: "world \<Rightarrow> abs_path \<Rightarrow> unicode" where
  "read_text w p = (case node_at (files w) p of Some (File t) \<Rightarrow> t | _ \<Rightarrow> [])"

section \<open>Configuration, requests and responses\<close>

definition TOOLS_DIR :: string where "TOOLS_DIR = ''/tools''"
definition DATA_DIR :: string where "DATA_DIR = ''/data''"
definition RESULTS_DIR :: string where "RESULTS_DIR = ''/data/results''"

definition HAYABUSA_DIR :: string where "HAYABUSA_DIR = os_path_join TOOLS_DIR ''hayabusa''"
definition CHAINSAW_DIR :: string where "CHAINSAW_DIR = os_path_join TOOLS_DIR ''chainsaw''"
definition TAKAJO_DIR :: string where "TAKAJO_DIR = os_path_join TOOLS_DIR ''takajo''"

definition HAYABUSA_PATH :: string where "HAYABUSA_PATH = os_path_join HAYABUSA_DIR ''hayabusa''"
definition CHAINSAW_PATH :: string where "CHAINSAW_PATH = os_path_join CHAINSAW_DIR ''chainsaw''"
definition TAKAJO_PATH :: string where "TAKAJO_PATH = os_path_join TAKAJO_DIR ''takajo''"

record AnalysisRequest =
  log_file :: string

text \<open>\<open>HayabusaSearchRequest\<close> has the fields \<open>log_file\<close> and \<open>keyword\<close>.\<close>

record HayabusaSearchRequest = AnalysisRequest +
  keyword :: string

record TakajoRequest =
  hayabusa_report_file :: string

record AnalysisResponse =
  message :: string
  output_location :: string
  tool :: string
  stdout :: "string option"
  stderr :: "string option"
  command_run :: string
  generated_files :: "string list option"

text \<open>
  A \<open>FileResponse\<close>: the file served, its media type, the download name, and the text
  that is sent.
\<close>

record FileResponse =
  path :: abs_path
  media_type :: string
  filename :: string
  body :: unicode

section \<open>Serving result files\<close>

text \<open>
  \<open>get_result_file\<close>, lines 140 to 165. \<open>get_result_file_try\<close> is the body of the
  \<open>try\<close> block; the handler \<open>except Exception\<close> turns every exception raised there,
  the two \<open>HTTPException\<close>s included, into an \<open>HTTPException\<close> with status 500.
\<close>

definition get_result_file_try :: "string \<Rightarrow> string \<Rightarrow> world \<Rightarrow> exn + FileResponse" where
  "get_result_file_try analysis_directory file_name w =
     (let analysis_directory = unquote analysis_directory;
          file_name = unquote file_name
      in case resolve (joinpath [] RESULTS_DIR) of
           Inl e \<Rightarrow> Inl e
         | Inr base_path \<Rightarrow>
             (case resolve (joinpath base_path analysis_directory) of
                Inl e \<Rightarrow> Inl e
              | Inr analysis_path \<Rightarrow>
                  (case resolve (joinpath analysis_path file_name) of
                     Inl e \<Rightarrow> Inl e
                   | Inr file_path \<Rightarrow>
                       if \<not> strict_prefix base_path analysis_path
                          \<or> \<not> strict_prefix base_path file_path
                       then Inl (HTTPException 403 (Str ''Forbidden''))
                       else if \<not> is_file w file_path
                       then Inl (HTTPException 404 (Str ''File not found''))
                       else Inr \<lparr>path = file_path, media_type = ''text/plain'',
                                  filename = file_name, body = read_text w file_path\<rparr>)))"

definition get_result_file :: "string \<Rightarrow> string \<Rightarrow> world \<Rightarrow> exn + FileResponse" where
  "get_result_file analysis_directory file_name w =
     (case get_result_file_try analysis_directory file_name w of
        Inl e \<Rightarrow> Inl (HTTPException 500 (Fmt ''Internal server error: '' e))
      | Inr r \<Rightarrow> Inr r)"

text \<open>
  \<open>str.isspace\<close>: the white space of Unicode, by code point. These are the horizontal
  tab to the carriage return (9 to 13), the separators 28 to 31, the space (32), the
  next line (133), the no-break space (160), the Ogham space mark (5760), the spaces
  8192 to 8202, the line and paragraph separators (8232, 8233), the narrow no-break
  space (8239), the medium mathematical space (8287) and the ideographic space (12288).
  \<open>line.strip()\<close> removes white space at both ends.
\<close>

definition isspace :: "nat \<Rightarrow> bool" where
  "isspace c =
     (c \<in> {9..13} \<union> {28..32} \<union> {133, 160, 5760} \<union> {8192..8202}
          \<union> {8232, 8233, 8239, 8287, 12288})"

definition strip :: "unicode \<Rightarrow> unicode" where
  "strip s = rev (dropWhile isspace (rev (dropWhile isspace s)))"

text \<open>
  Text-mode reading: \<open>open(file_path, 'r')\<close> translates \<open>\r\n\<close> and \<open>\r\<close> (code point 13)
  to \<open>\n\<close> (code point 10), and \<open>for line in f\<close> yields the lines with their line feed,
  the last one as it is.
\<close>

fun universal_newlines :: "unicode \<Rightarrow> unicode" where
  "universal_newlines [] = []"
| "universal_newlines (c # cs) =
     (if c = 13 then
        (case cs of
           d # ds \<Rightarrow> if d = 10 then 10 # universal_newlines ds
                     else 10 # universal_newlines cs
         | [] \<Rightarrow> [10])
      else c # universal_newlines cs)"

fun keepends :: "unicode \<Rightarrow> unicode list" where
  "keepends [] = []"
| "keepends (c # cs) =
     (if c = 10 then [c] # keepends cs
      else (case keepends cs of [] \<Rightarrow> [[c]] | l # ls \<Rightarrow> (c # l) # ls))"

definition text_lines :: "unicode \<Rightarrow> unicode list" where
  "text_lines t = keepends (universal_newlines t)"

text \<open>
  The decoding loop, lines 189 to 193. \<open>json_loads\<close> stands for \<open>json.loads\<close>: it returns
  the value of a line or the exception it raises. The accumulator is \<open>json_data\<close>.
\<close>

fun read_json_lines :: "(unicode \<Rightarrow> exn + 'j) \<Rightarrow> unicode list \<Rightarrow> 'j list \<Rightarrow> exn + 'j list" where
  "read_json_lines json_loads [] json_data = Inr json_data"
| "read_json_lines json_loads (line # rest) json_data =
     (if strip line \<noteq> [] then
        (case json_loads line of
           Inl e \<Rightarrow> Inl e
         | Inr v \<Rightarrow> read_json_lines json_loads rest (json_data @ [v]))
      else read_json_lines json_loads rest json_data)"

definition decode_jsonl :: "(unicode \<Rightarrow> exn + 'j) \<Rightarrow> unicode \<Rightarrow> exn + 'j list" where
  "decode_jsonl json_loads t = read_json_lines json_loads (text_lines t) []"

text \<open>
  Line 184 calls \<open>file_name.endsWith('.jsonl')\<close>. A Python \<open>str\<close> has \<open>endswith\<close> but no
  attribute \<open>endsWith\<close>, so evaluating the call raises \<open>AttributeError\<close>.
\<close>

definition endsWith :: "string \<Rightarrow> string \<Rightarrow> exn + bool" where
  "endsWith s suf = Inl AttributeError"

text \<open>
  \<open>get_result_file_json\<close>, lines 168 to 199. In \<open>not file_path.is_file() or not
  file_name.endsWith('.jsonl')\<close> the right operand is evaluated only when the path is a
  regular file.
\<close>

definition get_result_file_json_try ::
    "(unicode \<Rightarrow> exn + 'j) \<Rightarrow> string \<Rightarrow> world \<Rightarrow> exn + 'j list" where
  "get_result_file_json_try json_loads file_name w =
     (let file_name = unquote file_name
      in case resolve (joinpath [] RESULTS_DIR) of
           Inl e \<Rightarrow> Inl e
         | Inr base_path \<Rightarrow>
             (case resolve (joinpath base_path file_name) of
                Inl e \<Rightarrow> Inl e
              | Inr file_path \<Rightarrow>
                  if \<not> strict_prefix base_path file_path
                  then Inl (HTTPException 403 (Str ''Forbidden''))
                  else
                    (case (if \<not> is_file w file_path then Inr True
                           else map_sum id Not (endsWith file_name ''.jsonl'')) of
                       Inl e \<Rightarrow> Inl e
                     | Inr True \<Rightarrow> Inl (HTTPException 404 (Str ''JSONL file not found''))
                     | Inr False \<Rightarrow> decode_jsonl json_loads (read_text w file_path))))"

definition get_result_file_json ::
    "(unicode \<Rightarrow> exn + 'j) \<Rightarrow> string \<Rightarrow> world \<Rightarrow> exn + 'j list" where
  "get_result_file_json json_loads file_name w =
     (case get_result_file_json_try json_loads file_name w of
        Inl e \<Rightarrow> Inl (HTTPException 500 (Fmt ''Internal server error: '' e))
      | Inr r \<Rightarrow> Inr r)"

section \<open>The analysis endpoints\<close>

text \<open>
  Each endpoint takes the request and the world and returns the response, or the
  exception that leaves it, with the world afterwards. An exception that the endpoint
  does not catch (from \<open>os.remove\<close>, or from starting the program) leaves it as it is.
\<close>

text \<open>\<open>analyze_hayabusa\<close>, lines 207 to 245.\<close>

definition analyze_hayabusa ::
    "AnalysisRequest \<Rightarrow> world \<Rightarrow> (exn + AnalysisResponse) \<times> world" where
  "analyze_hayabusa request w =
     (let log_path = os_path_join DATA_DIR (log_file request);
          output_jsonl = os_path_join RESULTS_DIR (log_file request @ ''-hayabusa-report.jsonl'')
      in if \<not> os_path_exists w HAYABUSA_PATH
         then (Inl (HTTPException 500
                 (Dict [(''message'', ''Hayabusa binary not found at '' @ HAYABUSA_PATH)])), w)
         else if contains ''..'' (log_file request) \<or> \<not> os_path_isfile w log_path
         then (Inl (HTTPException 404
                 (Dict [(''message'', ''Log file not found at '' @ log_path @ ''.'')])), w)
         else
           let cmd = [HAYABUSA_PATH, ''json-timeline'', ''-f'', log_path, ''-o'', output_jsonl,
                      ''-L'', ''--no-wizard''];
               command_run = join '' '' cmd
           in (case (if os_path_exists w output_jsonl then os_remove output_jsonl w
                     else (Inr (), w)) of
                 (Inl e, w1) \<Rightarrow> (Inl e, w1)
               | (Inr u, w1) \<Rightarrow>
                   (case subprocess_run cmd HAYABUSA_DIR w1 of
                      (Raised e, w2) \<Rightarrow> (Inl e, w2)
                    | (Exited returncode out err, w2) \<Rightarrow>
                        if returncode = 0
                        then (Inr \<lparr>message = ''Hayabusa analysis complete for '' @ log_file request,
                                   output_location = output_jsonl,
                                   tool = ''Hayabusa'',
                                   stdout = Some out,
                                   stderr = Some err,
                                   command_run = command_run,
                                   generated_files = None\<rparr>, w2)
                        else (Inl (HTTPException 500
                                (Dict [(''message'', ''Hayabusa analysis failed.''),
                                       (''stderr'', err), (''stdout'', out)])), w2))))"

text \<open>\<open>analyze_hayabusa_search\<close>, lines 252 to 294.\<close>

definition analyze_hayabusa_search ::
    "HayabusaSearchRequest \<Rightarrow> world \<Rightarrow> (exn + AnalysisResponse) \<times> world" where
  "analyze_hayabusa_search request w =
     (let log_path = os_path_join DATA_DIR (log_file request);
          output_csv = os_path_join RESULTS_DIR
                         (log_file request @ ''-search-'' @ keyword request @ ''.csv'')
      in if \<not> os_path_exists w HAYABUSA_PATH
         then (Inl (HTTPException 500
                 (Dict [(''message'', ''Hayabusa binary not found at '' @ HAYABUSA_PATH)])), w)
         else if contains ''..'' (log_file request) \<or> \<not> os_path_isfile w log_path
         then (Inl (HTTPException 404
                 (Dict [(''message'', ''Log file not found at '' @ log_path @ ''.'')])), w)
         else
           let cmd = [HAYABUSA_PATH, ''search'', ''-f'', log_path, ''-k'', keyword request,
                      ''-o'', output_csv];
               command_run = join '' '' cmd
           in (case (if os_path_exists w output_csv then os_remove output_csv w
                     else (Inr (), w)) of
                 (Inl e, w1) \<Rightarrow> (Inl e, w1)
               | (Inr u, w1) \<Rightarrow>
                   (case subprocess_run cmd HAYABUSA_DIR w1 of
                      (Raised e, w2) \<Rightarrow> (Inl e, w2)
                    | (Exited returncode out err, w2) \<Rightarrow>
                        if returncode = 0
                        then (Inr \<lparr>message = ''Hayabusa search for '' @ [CHR 0x27] @ keyword request
                                               @ [CHR 0x27] @ '' complete on '' @ log_file request,
                                   output_location = output_csv,
                                   tool = ''Hayabusa Search'',
                                   stdout = Some out,
                                   stderr = Some err,
                                   command_run = command_run,
                                   generated_files = None\<rparr>, w2)
                        else (Inl (HTTPException 500
                                (Dict [(''message'', ''Hayabusa search failed.''),
                                       (''stderr'', err), (''stdout'', out)])), w2))))"

text \<open>
  \<open>analyze_chainsaw\<close>, lines 300 to 324: the stub builds the command line and returns;
  it removes nothing and starts nothing.
\<close>

definition analyze_chainsaw ::
    "AnalysisRequest \<Rightarrow> world \<Rightarrow> (exn + AnalysisResponse) \<times> world" where
  "analyze_chainsaw request w =
     (let log_path = os_path_join DATA_DIR (log_file request);
          output_json = os_path_join RESULTS_DIR (log_file request @ ''-chainsaw-report.json'')
      in if \<not> os_path_exists w CHAINSAW_PATH
         then (Inl (HTTPException 500
                 (Dict [(''message'', ''Chainsaw binary not found at '' @ CHAINSAW_PATH)])), w)
         else if contains ''..'' (log_file request) \<or> \<not> os_path_isfile w log_path
         then (Inl (HTTPException 404
                 (Dict [(''message'', ''Log file not found at '' @ log_path @ ''.'')])), w)
         else
           let cmd = [CHAINSAW_PATH, ''hunt'', ''-f'', log_path, ''--json'', ''-o'', output_json,
                      ''--no-banner''];
               command_run = join '' '' cmd
           in (Inr \<lparr>message = ''Chainsaw analysis STUB executed for '' @ log_file request,
                     output_location = output_json,
                     tool = ''Chainsaw'',
                     stdout = Some ''This is a stub. Chainsaw was not actually executed.'',
                     stderr = None,
                     command_run = command_run,
                     generated_files = None\<rparr>, w))"

text \<open>
  The scan of the output directory, lines 360 to 369: the regular files below it, each
  as its path relative to the directory, with backslashes turned into slashes. The order
  is that of the file table.
\<close>

definition scan_output :: "world \<Rightarrow> string \<Rightarrow> string list" where
  "scan_output w output_directory =
     (case locate (getcwd w) (files w) output_directory of
        None \<Rightarrow> []
      | Some p \<Rightarrow>
          if node_at (files w) p \<noteq> Some Dir then []
          else map (\<lambda>(q, n). replace (join ''/'' (drop (length p) q)) [CHR 0x5C] ''/'')
                 (filter (\<lambda>(q, n). strict_prefix p q \<and> is_file w q) (files w)))"

text \<open>\<open>analyze_takajo\<close>, lines 331 to 385.\<close>

definition analyze_takajo ::
    "TakajoRequest \<Rightarrow> world \<Rightarrow> (exn + AnalysisResponse) \<times> world" where
  "analyze_takajo request w =
     (let report_path = abspath (getcwd w) (hayabusa_report_file request);
          output_directory = replace report_path ''-hayabusa-report.jsonl'' ''-takajo-analysis''
      in if \<not> os_path_exists w TAKAJO_PATH
         then (Inl (HTTPException 500
                 (Dict [(''message'', ''Takajo binary not found at '' @ TAKAJO_PATH)])), w)
         else if contains ''..'' report_path \<or> \<not> os_path_isfile w report_path
         then (Inl (HTTPException 404
                 (Dict [(''message'', ''Hayabusa report file (.jsonl) not found.'')])), w)
         else
           (case (if os_path_exists w output_directory
                  then (case shutil_rmtree output_directory w of
                          (Inl e, w1) \<Rightarrow>
                            (Inl (HTTPException 500
                               (Fmt ''Failed to remove old analysis directory: '' e)), w1)
                        | (Inr u, w1) \<Rightarrow> (Inr (), w1))
                  else (Inr (), w)) of
              (Inl e, w1) \<Rightarrow> (Inl e, w1)
            | (Inr u, w1) \<Rightarrow>
                let cmd = [TAKAJO_PATH, ''automagic'', ''-t'', report_path, ''-o'', output_directory];
                    command_run = join '' '' cmd
                in (case subprocess_run cmd TAKAJO_DIR w1 of
                      (Raised e, w2) \<Rightarrow> (Inl e, w2)
                    | (Exited returncode out err, w2) \<Rightarrow>
                        if returncode = 0
                        then (Inr \<lparr>message = ''Takajo '' @ [CHR 0x27] @ ''automagic'' @ [CHR 0x27]
                                               @ '' analysis complete for ''
                                               @ hayabusa_report_file request,
                                   output_location = output_directory,
                                   tool = ''Takajo'',
                                   stdout = Some out,
                                   stderr = Some err,
                                   command_run = command_run,
                                   generated_files = Some (scan_output w2 output_directory)\<rparr>, w2)
                        else (Inl (HTTPException 500
                                (Dict [(''message'', ''Takajo analysis failed.''),
                                       (''stderr'', err), (''stdout'', out)])), w2))))"

text \<open>The four \<open>POST /analyze/...\<close> routes and their request bodies.\<close>

datatype call =
    PostHayabusa AnalysisRequest
  | PostHayabusaSearch HayabusaSearchRequest
  | PostChainsaw AnalysisRequest
  | PostTakajo TakajoRequest

fun post_analyze :: "call \<Rightarrow> world \<Rightarrow> (exn + AnalysisResponse) \<times> world" where
  "post_analyze (PostHayabusa request) w = analyze_hayabusa request w"
| "post_analyze (PostHayabusaSearch request) w = analyze_hayabusa_search request w"
| "post_analyze (PostChainsaw request) w = analyze_chainsaw request w"
| "post_analyze (PostTakajo request) w = analyze_takajo request w"

section \<open>Example worlds\<close>

text \<open>
  A container with the three tools installed, three logs in the data root, earlier
  results in the results root (for \<open>blocked.evtx\<close> directories sit where the report
  and the search result would go), and a few files outside both roots. Its programs
  succeed and leave the files alone.
\<close>

definition demo_files :: filesystem where
  "demo_files =
     [([''tools''], Dir),
      ([''tools'', ''hayabusa''], Dir), ([''tools'', ''hayabusa'', ''hayabusa''], File []),
      ([''tools'', ''chainsaw''], Dir), ([''tools'', ''chainsaw'', ''chainsaw''], File []),
      ([''tools'', ''takajo''], Dir), ([''tools'', ''takajo'', ''takajo''], File []),
      ([''data''], Dir),
      ([''data'', ''evtx1.evtx''], File (ascii ''events'')),
      ([''data'', ''my..log.evtx''], File (ascii ''events'')),
      ([''data'', ''blocked.evtx''], File (ascii ''events'')),
      ([''data'', ''results''], Dir),
      ([''data'', ''results'', ''report.jsonl''], File (ascii ''1'')),
      ([''data'', ''results'', ''evtx1.evtx-hayabusa-report.jsonl''], File (ascii ''old'')),
      ([''data'', ''results'', ''evtx1.evtx-takajo-analysis''], Dir),
      ([''data'', ''results'', ''evtx1.evtx-takajo-analysis'', ''summary.csv''],
       File (ascii ''old'')),
      ([''data'', ''results'', ''evtx1.evtx-search-mimikatz.csv''], File (ascii ''old'')),
      ([''data'', ''results'', ''blocked.evtx-hayabusa-report.jsonl''], Dir),
      ([''data'', ''results'', ''blocked.evtx-search-mimikatz.csv''], Dir),
      ([''data'', ''results'', ''notes.txt''], File (ascii ''n'')),
      ([''data'', ''results'', ''a..b''], File (ascii ''n'')),
      ([''etc''], Dir),
      ([''etc'', ''passwd''], File (ascii ''root'')),
      ([''etc'', ''passwd-hayabusa-report.jsonl''], File (ascii ''keep''))]"

definition demo_world :: world where
  "demo_world = \<lparr>files = demo_files, getcwd = ''/app'',
                  programs = (\<lambda>cmd dir fs. (Exited 0 ''done'' [], fs)), spawned = []\<rparr>"

text \<open>The same container with programs that exit with code 1.\<close>

definition failing_world :: world where
  "failing_world = demo_world\<lparr>programs := (\<lambda>cmd dir fs. (Exited 1 ''partial'' ''bad input'', fs))\<rparr>"

text \<open>A container with nothing installed and no data.\<close>

definition bare_world :: world where
  "bare_world = \<lparr>files = [], getcwd = ''/app'',
                  programs = (\<lambda>cmd dir fs. (Exited 0 [] [], fs)), spawned = []\<rparr>"

text \<open>
  A container with the timeline tool and one log, in which a dangling symbolic link sits
  where the report for that log goes.
\<close>

definition stale_link_files :: filesystem where
  "stale_link_files =
     [([''tools''], Dir),
      ([''tools'', ''hayabusa''], Dir), ([''tools'', ''hayabusa'', ''hayabusa''], File []),
      ([''data''], Dir),
      ([''data'', ''evtx1.evtx''], File (ascii ''events'')),
      ([''data'', ''results''], Dir),
      ([''data'', ''results'', ''evtx1.evtx-hayabusa-report.jsonl''], Dangling)]"

definition stale_link_world :: world where
  "stale_link_world = \<lparr>files = stale_link_files, getcwd = ''/app'',
                        programs = (\<lambda>cmd dir fs. (Exited 0 ''done'' [], fs)), spawned = []\<rparr>"




section \<open>Properties of the result-serving endpoints\<close>

lemmas config_defs =
  TOOLS_DIR_def DATA_DIR_def RESULTS_DIR_def HAYABUSA_DIR_def CHAINSAW_DIR_def TAKAJO_DIR_def
  HAYABUSA_PATH_def CHAINSAW_PATH_def TAKAJO_PATH_def

lemmas pathlib_defs = resolve_def joinpath_def pure_parts_def isabs_def

text \<open>
  No request to \<open>get_result_file\<close> is answered with 403 or 404: both exceptions are
  raised inside the \<open>try\<close> block and leave the handler as a 500, as does the
  \<open>ValueError\<close> of \<open>resolve\<close>.
\<close>

lemma get_result_file_status:
  "status_code (get_result_file analysis_directory file_name w) = 200 \<or>
   status_code (get_result_file analysis_directory file_name w) = 500"
  by (simp add: get_result_file_def split: sum.splits)

text \<open>
  C1. The request \<open>GET /results_file/../../etc/foo\<close> binds \<open>analysis_directory\<close> to
  \<open>..\<close> and \<open>file_name\<close> to \<open>../etc/foo\<close>. The resolved paths \<open>/data\<close> and \<open>/etc/foo\<close>
  are outside the results root and the endpoint raises the 403, but in every world the
  response that leaves it has status 500 and wraps the 403; no file is served.
\<close>

theorem traversal_answered_with_500:
  "get_result_file ''..'' ''../etc/foo'' w =
     Inl (HTTPException 500
            (Fmt ''Internal server error: '' (HTTPException 403 (Str ''Forbidden''))))
   \<and> status_code (get_result_file ''..'' ''../etc/foo'' w) = 500"
  by (simp add: get_result_file_def get_result_file_try_def unquote_def pathlib_defs config_defs)

text \<open>
  Whatever the file name and the files, \<open>get_result_file_json\<close> ends in a 500: a
  failed check is wrapped by the handler, and a regular file leads to the call of
  \<open>endsWith\<close>.
\<close>

lemma get_result_file_json_always_500:
  "\<exists>d. get_result_file_json json_loads file_name w = Inl (HTTPException 500 d)"
  by (simp add: get_result_file_json_def get_result_file_json_try_def endsWith_def Let_def
      split: sum.splits bool.splits)

text \<open>
  C3. \<open>report.jsonl\<close> is a regular file directly under the results root of the example
  container and has the extension \<open>.jsonl\<close>. The request for it does not return the
  decoded array: it ends in a 500 that carries the \<open>AttributeError\<close>.
\<close>

theorem existing_jsonl_answered_with_500:
  "is_file demo_world [''data'', ''results'', ''report.jsonl'']
   \<and> get_result_file_json json_loads ''report.jsonl'' demo_world =
       Inl (HTTPException 500 (Fmt ''Internal server error: '' AttributeError))"
  by (simp add: get_result_file_json_def get_result_file_json_try_def unquote_def pathlib_defs
      config_defs is_file_def demo_world_def demo_files_def node_at_def endsWith_def)

subsection \<open>The decoding loop\<close>















section \<open>Properties of strings, paths and the file system\<close>




lemma map_of_filter_neq:
  "map_of (filter (\<lambda>(q, n). q \<noteq> p) fs) q = (if q = p then None else map_of fs q)"
  by (induction fs) auto

lemma map_of_filter_prefix:
  "map_of (filter (\<lambda>(q, n). \<not> prefix p q) fs) q = (if prefix p q then None else map_of fs q)"
  by (induction fs) auto

lemma node_at_remove_entry:
  "p \<noteq> [] \<Longrightarrow> node_at (filter (\<lambda>(q, n). q \<noteq> p) fs) q = (if q = p then None else node_at fs q)"
  by (simp add: node_at_def map_of_filter_neq)

lemma node_at_remove_tree:
  "p \<noteq> [] \<Longrightarrow>
   node_at (filter (\<lambda>(q, n). \<not> prefix p q) fs) q = (if prefix p q then None else node_at fs q)"
  by (auto simp: node_at_def map_of_filter_prefix)

text \<open>
  Once a file, a link or a directory tree is removed, the path that led to it leads
  nowhere, whether links are followed or not.
\<close>

lemma walk_follow_lstat: "walk True fs cur cs = Some p \<Longrightarrow> walk False fs cur cs = Some p"
  by (induction cs arbitrary: cur) (auto split: if_splits option.splits node.splits)

lemma walk_remove_entry:
  "walk follow fs cur cs = Some p \<Longrightarrow> node_at fs p \<noteq> Some Dir \<Longrightarrow>
   walk follow' (filter (\<lambda>(q, n). q \<noteq> p) fs) cur cs = None"
proof (induction cs arbitrary: cur)
  case Nil
  from Nil.prems(2) have "p \<noteq> []" by (auto simp: node_at_def)
  moreover from Nil.prems(1) have "cur = p" by (auto split: option.splits node.splits if_splits)
  ultimately show ?case by (simp add: node_at_remove_entry)
next
  case (Cons c cs)
  from Cons.prems(2) have p: "p \<noteq> []" by (auto simp: node_at_def)
  from Cons.prems(1) have dir: "node_at fs cur = Some Dir" by (auto split: if_splits)
  with Cons.prems(2) have "cur \<noteq> p" by auto
  with dir p have "node_at (filter (\<lambda>(q, n). q \<noteq> p) fs) cur = Some Dir"
    by (simp add: node_at_remove_entry)
  with Cons dir show ?case by (auto split: if_splits)
qed

lemma walk_remove_tree:
  "walk follow fs cur cs = Some p \<Longrightarrow> p \<noteq> [] \<Longrightarrow>
   walk follow' (filter (\<lambda>(q, n). \<not> prefix p q) fs) cur cs = None"
proof (induction cs arbitrary: cur)
  case Nil
  from Nil.prems(1) have "cur = p" by (auto split: option.splits node.splits if_splits)
  with Nil.prems(2) show ?case by (simp add: node_at_remove_tree)
next
  case (Cons c cs)
  from Cons.prems(1) have dir: "node_at fs cur = Some Dir" by (auto split: if_splits)
  show ?case
  proof (cases "prefix p cur")
    case True
    with Cons.prems(2) show ?thesis by (simp add: node_at_remove_tree)
  next
    case False
    with dir Cons.prems(2) have "node_at (filter (\<lambda>(q, n). \<not> prefix p q) fs) cur = Some Dir"
      by (simp add: node_at_remove_tree)
    with Cons dir show ?thesis by (auto split: if_splits)
  qed
qed

lemma locate_llocate: "locate cwd fs s = Some p \<Longrightarrow> llocate cwd fs s = Some p"
  by (auto simp: locate_def llocate_def walk_follow_lstat split: if_splits)

text \<open>What \<open>locate\<close> finds is a file or a directory, never a dangling link.\<close>

lemma locate_node:
  "locate cwd fs s = Some p \<Longrightarrow> node_at fs p \<noteq> None \<and> node_at fs p \<noteq> Some Dangling"
proof -
  have "walk True fs cur cs = Some p \<Longrightarrow> node_at fs p \<noteq> None \<and> node_at fs p \<noteq> Some Dangling"
    for cur cs
    by (induction cs arbitrary: cur) (auto split: if_splits option.splits node.splits)
  then show "locate cwd fs s = Some p \<Longrightarrow> node_at fs p \<noteq> None \<and> node_at fs p \<noteq> Some Dangling"
    by (auto simp: locate_def split: if_splits)
qed

lemma os_remove_ok:
  assumes "os_remove s w = (Inr u, w')"
  shows "\<exists>p. llocate (getcwd w) (files w) s = Some p \<and>
             files w' = filter (\<lambda>(q, n). q \<noteq> p) (files w)"
    and "locate (getcwd w) (files w') s = None"
    and "spawned w' = spawned w" and "getcwd w' = getcwd w" and "programs w' = programs w"
  using assms
  by (auto simp: os_remove_def locate_def llocate_def walk_remove_entry
      split: option.splits node.splits if_splits)

lemma os_remove_fail: "os_remove s w = (Inl e, w') \<Longrightarrow> w' = w"
  by (auto simp: os_remove_def split: option.splits node.splits)

lemma os_remove_raises:
  "os_remove s w = (Inl x, w1) \<Longrightarrow> x = FileNotFoundError \<or> x = IsADirectoryError"
  by (auto simp: os_remove_def split: option.splits node.splits)

lemma shutil_rmtree_ok:
  assumes "shutil_rmtree s w = (Inr u, w')"
  shows "\<exists>p. llocate (getcwd w) (files w) s = Some p \<and>
             files w' = filter (\<lambda>(q, n). \<not> prefix p q) (files w)"
    and "locate (getcwd w) (files w') s = None"
    and "spawned w' = spawned w" and "getcwd w' = getcwd w" and "programs w' = programs w"
  using assms
  by (auto simp: shutil_rmtree_def locate_def llocate_def walk_remove_tree
      split: option.splits node.splits if_splits)

lemma shutil_rmtree_fail:
  "shutil_rmtree s w = (Inl e, w') \<Longrightarrow> spawned w' = spawned w"
  by (auto simp: shutil_rmtree_def split: option.splits node.splits if_splits)



lemma config_values:
  "HAYABUSA_DIR = ''/tools/hayabusa''" "CHAINSAW_DIR = ''/tools/chainsaw''"
  "TAKAJO_DIR = ''/tools/takajo''" "HAYABUSA_PATH = ''/tools/hayabusa/hayabusa''"
  "CHAINSAW_PATH = ''/tools/chainsaw/chainsaw''" "TAKAJO_PATH = ''/tools/takajo/takajo''"
  by (simp_all add: config_defs os_path_join_def isabs_def suffix_to_prefix)

lemmas os_defs = os_path_exists_def os_path_isfile_def locate_def llocate_def os_path_join_def
  isabs_def node_at_def

lemmas demo_defs = demo_world_def failing_world_def bare_world_def demo_files_def
  stale_link_world_def stale_link_files_def

section \<open>What a request does to the log of started programs\<close>

text \<open>
  For each endpoint that runs a tool: either no program was started, or exactly one was,
  with the argument vector and working directory of the source. The files it saw are
  those of before the request without what \<open>os.path.exists\<close> found at the output
  location; nothing is found there any more when it starts; the files after the request
  are those the program left. If it exited with a code other than 0, the response is
  the 500 that carries its standard error and standard output.
\<close>

lemma analyze_hayabusa_run:
  assumes "analyze_hayabusa request w = (resp, w')"
  shows "spawned w' = spawned w \<or>
     (\<exists>e. spawned w' = spawned w @ [e] \<and>
          argv e = [HAYABUSA_PATH, ''json-timeline'', ''-f'', os_path_join DATA_DIR (log_file request),
                    ''-o'', os_path_join RESULTS_DIR (log_file request @ ''-hayabusa-report.jsonl''),
                    ''-L'', ''--no-wizard''] \<and>
          workdir e = HAYABUSA_DIR \<and>
          seen e = (case locate (getcwd w) (files w) (os_path_join RESULTS_DIR (log_file request @ ''-hayabusa-report.jsonl'')) of
                      None \<Rightarrow> files w
                    | Some p \<Rightarrow> filter (\<lambda>(q, n). q \<noteq> p) (files w)) \<and>
          files w' = snd (programs w (argv e) (workdir e) (seen e)) \<and>
          locate (getcwd w) (seen e) (os_path_join RESULTS_DIR (log_file request @ ''-hayabusa-report.jsonl'')) = None \<and>
          (\<forall>rc out err. result e = Exited rc out err \<longrightarrow> rc \<noteq> 0 \<longrightarrow>
             resp = Inl (HTTPException 500
                      (Dict [(''message'', ''Hayabusa analysis failed.''),
                             (''stderr'', err), (''stdout'', out)]))))"
proof -
  let ?out = "os_path_join RESULTS_DIR (log_file request @ ''-hayabusa-report.jsonl'')"
  show ?thesis
  proof (cases "\<not> os_path_exists w HAYABUSA_PATH \<or> contains ''..'' (log_file request) \<or>
                \<not> os_path_isfile w (os_path_join DATA_DIR (log_file request))")
    case True
    with assms show ?thesis by (auto simp: analyze_hayabusa_def Let_def split: if_splits)
  next
    case False
    show ?thesis
    proof (cases "os_path_exists w ?out")
      case ex: True
      then obtain p where p: "locate (getcwd w) (files w) ?out = Some p"
        by (auto simp: os_path_exists_def)
      show ?thesis
      proof (cases "os_remove ?out w")
        case (Pair r w1)
        show ?thesis
        proof (cases r)
          case (Inl x)
          with Pair have "spawned w1 = spawned w" by (auto dest: os_remove_fail)
          with assms False ex Pair Inl show ?thesis
            by (auto simp: analyze_hayabusa_def Let_def)
        next
          case (Inr u)
          with Pair have rm: "os_remove ?out w = (Inr u, w1)" by simp
          from os_remove_ok(1) [OF rm] locate_llocate [OF p]
          have fs: "files w1 = filter (\<lambda>(q, n). q \<noteq> p) (files w)" by auto
          note ok = os_remove_ok(2-5) [OF rm]
          with assms False ex rm p fs show ?thesis
            by (auto simp: analyze_hayabusa_def Let_def subprocess_run_def
                split: prod.splits outcome.splits if_splits)
        qed
      qed
    next
      case nex: False
      then have "locate (getcwd w) (files w) ?out = None" by (simp add: os_path_exists_def)
      with assms False nex show ?thesis
        by (auto simp: analyze_hayabusa_def Let_def subprocess_run_def
            split: prod.splits outcome.splits if_splits)
    qed
  qed
qed

lemma analyze_hayabusa_search_run:
  assumes "analyze_hayabusa_search request w = (resp, w')"
  shows "spawned w' = spawned w \<or>
     (\<exists>e. spawned w' = spawned w @ [e] \<and>
          argv e = [HAYABUSA_PATH, ''search'', ''-f'', os_path_join DATA_DIR (log_file request),
                    ''-k'', keyword request, ''-o'',
                    os_path_join RESULTS_DIR
                      (log_file request @ ''-search-'' @ keyword request @ ''.csv'')] \<and>
          workdir e = HAYABUSA_DIR \<and>
          seen e = (case locate (getcwd w) (files w) (os_path_join RESULTS_DIR
               (log_file request @ ''-search-'' @ keyword request @ ''.csv'')) of
                      None \<Rightarrow> files w
                    | Some p \<Rightarrow> filter (\<lambda>(q, n). q \<noteq> p) (files w)) \<and>
          files w' = snd (programs w (argv e) (workdir e) (seen e)) \<and>
          locate (getcwd w) (seen e) (os_path_join RESULTS_DIR
               (log_file request @ ''-search-'' @ keyword request @ ''.csv'')) = None \<and>
          (\<forall>rc out err. result e = Exited rc out err \<longrightarrow> rc \<noteq> 0 \<longrightarrow>
             resp = Inl (HTTPException 500
                      (Dict [(''message'', ''Hayabusa search failed.''),
                             (''stderr'', err), (''stdout'', out)]))))"
proof -
  let ?out = "os_path_join RESULTS_DIR
               (log_file request @ ''-search-'' @ keyword request @ ''.csv'')"
  show ?thesis
  proof (cases "\<not> os_path_exists w HAYABUSA_PATH \<or> contains ''..'' (log_file request) \<or>
                \<not> os_path_isfile w (os_path_join DATA_DIR (log_file request))")
    case True
    with assms show ?thesis by (auto simp: analyze_hayabusa_search_def Let_def split: if_splits)
  next
    case False
    show ?thesis
    proof (cases "os_path_exists w ?out")
      case ex: True
      then obtain p where p: "locate (getcwd w) (files w) ?out = Some p"
        by (auto simp: os_path_exists_def)
      show ?thesis
      proof (cases "os_remove ?out w")
        case (Pair r w1)
        show ?thesis
        proof (cases r)
          case (Inl x)
          with Pair have "spawned w1 = spawned w" by (auto dest: os_remove_fail)
          with assms False ex Pair Inl show ?thesis
            by (auto simp: analyze_hayabusa_search_def Let_def)
        next
          case (Inr u)
          with Pair have rm: "os_remove ?out w = (Inr u, w1)" by simp
          from os_remove_ok(1) [OF rm] locate_llocate [OF p]
          have fs: "files w1 = filter (\<lambda>(q, n). q \<noteq> p) (files w)" by auto
          note ok = os_remove_ok(2-5) [OF rm]
          with assms False ex rm p fs show ?thesis
            by (auto simp: analyze_hayabusa_search_def Let_def subprocess_run_def
                split: prod.splits outcome.splits if_splits)
        qed
      qed
    next
      case nex: False
      then have "locate (getcwd w) (files w) ?out = None" by (simp add: os_path_exists_def)
      with assms False nex show ?thesis
        by (auto simp: analyze_hayabusa_search_def Let_def subprocess_run_def
            split: prod.splits outcome.splits if_splits)
    qed
  qed
qed

lemma analyze_chainsaw_world: "snd (analyze_chainsaw request w) = w"
  by (simp add: analyze_chainsaw_def Let_def)

lemma analyze_takajo_run:
  assumes "analyze_takajo request w = (resp, w')"
  shows "spawned w' = spawned w \<or>
     (\<exists>e. spawned w' = spawned w @ [e] \<and>
          argv e = [TAKAJO_PATH, ''automagic'', ''-t'',
                    abspath (getcwd w) (hayabusa_report_file request), ''-o'',
                    replace (abspath (getcwd w) (hayabusa_report_file request))
                      ''-hayabusa-report.jsonl'' ''-takajo-analysis''] \<and>
          workdir e = TAKAJO_DIR \<and>
          seen e = (case locate (getcwd w) (files w) (replace (abspath (getcwd w) (hayabusa_report_file request))
               ''-hayabusa-report.jsonl'' ''-takajo-analysis'') of
                      None \<Rightarrow> files w
                    | Some p \<Rightarrow> filter (\<lambda>(q, n). \<not> prefix p q) (files w)) \<and>
          files w' = snd (programs w (argv e) (workdir e) (seen e)) \<and>
          locate (getcwd w) (seen e) (replace (abspath (getcwd w) (hayabusa_report_file request))
               ''-hayabusa-report.jsonl'' ''-takajo-analysis'') = None \<and>
          (\<forall>rc out err. result e = Exited rc out err \<longrightarrow> rc \<noteq> 0 \<longrightarrow>
             resp = Inl (HTTPException 500
                      (Dict [(''message'', ''Takajo analysis failed.''),
                             (''stderr'', err), (''stdout'', out)]))))"
proof -
  let ?out = "replace (abspath (getcwd w) (hayabusa_report_file request))
               ''-hayabusa-report.jsonl'' ''-takajo-analysis''"
  show ?thesis
  proof (cases "\<not> os_path_exists w TAKAJO_PATH
                \<or> contains ''..'' (abspath (getcwd w) (hayabusa_report_file request))
                \<or> \<not> os_path_isfile w (abspath (getcwd w) (hayabusa_report_file request))")
    case True
    with assms show ?thesis by (auto simp: analyze_takajo_def Let_def split: if_splits)
  next
    case False
    show ?thesis
    proof (cases "os_path_exists w ?out")
      case ex: True
      then obtain p where p: "locate (getcwd w) (files w) ?out = Some p"
        by (auto simp: os_path_exists_def)
      show ?thesis
      proof (cases "shutil_rmtree ?out w")
        case (Pair r w1)
        show ?thesis
        proof (cases r)
          case (Inl x)
          with Pair have "spawned w1 = spawned w" by (auto dest: shutil_rmtree_fail)
          with assms False ex Pair Inl show ?thesis
            by (auto simp: analyze_takajo_def Let_def)
        next
          case (Inr u)
          with Pair have rm: "shutil_rmtree ?out w = (Inr u, w1)" by simp
          from shutil_rmtree_ok(1) [OF rm] locate_llocate [OF p]
          have fs: "files w1 = filter (\<lambda>(q, n). \<not> prefix p q) (files w)" by auto
          note ok = shutil_rmtree_ok(2-5) [OF rm]
          with assms False ex rm p fs show ?thesis
            by (auto simp: analyze_takajo_def Let_def subprocess_run_def
                split: prod.splits outcome.splits if_splits)
        qed
      qed
    next
      case nex: False
      then have "locate (getcwd w) (files w) ?out = None" by (simp add: os_path_exists_def)
      with assms False nex show ?thesis
        by (auto simp: analyze_takajo_def Let_def subprocess_run_def
            split: prod.splits outcome.splits if_splits)
    qed
  qed
qed

section \<open>The hunt endpoint\<close>

text \<open>
  C4, as amended. For a request that passes validation (the binary is present, the log
  file name has no \<open>..\<close> and names a regular file under the data root) the endpoint is a
  stub: it returns a response and leaves the world as it was, so it starts no program
  and touches no file. The response reports as \<open>command_run\<close> the argument vector
  \<open><bin> hunt -f <logPath> --json -o <outputJsonPath> --no-banner\<close> joined by spaces, the
  JSON path as output location, and as standard output the notice that Chainsaw was not
  executed.
\<close>

theorem chainsaw_is_a_stub:
  assumes "os_path_exists w CHAINSAW_PATH"
    and "\<not> contains ''..'' (log_file request)"
    and "os_path_isfile w (os_path_join DATA_DIR (log_file request))"
  shows "\<exists>r. analyze_chainsaw request w = (Inr r, w) \<and>
     command_run r =
       join '' '' [CHAINSAW_PATH, ''hunt'', ''-f'', os_path_join DATA_DIR (log_file request),
                   ''--json'', ''-o'',
                   os_path_join RESULTS_DIR (log_file request @ ''-chainsaw-report.json''),
                   ''--no-banner''] \<and>
     output_location r = os_path_join RESULTS_DIR (log_file request @ ''-chainsaw-report.json'') \<and>
     stdout r = Some ''This is a stub. Chainsaw was not actually executed.'' \<and>
     stderr r = None"
  using assms by (simp add: analyze_chainsaw_def Let_def)

text \<open>
  The stub on the log \<open>evtx1.evtx\<close> of the example container.
\<close>

theorem chainsaw_is_a_stub_witness:
  "os_path_exists demo_world CHAINSAW_PATH
   \<and> os_path_isfile demo_world (os_path_join DATA_DIR ''evtx1.evtx'')
   \<and> (\<exists>r. analyze_chainsaw \<lparr>log_file = ''evtx1.evtx''\<rparr> demo_world = (Inr r, demo_world) \<and>
          command_run r = ''/tools/chainsaw/chainsaw hunt -f /data/evtx1.evtx --json -o /data/results/evtx1.evtx-chainsaw-report.json --no-banner'')"
proof -
  have bin: "os_path_exists demo_world CHAINSAW_PATH"
    by (simp add: os_defs config_values DATA_DIR_def RESULTS_DIR_def suffix_to_prefix demo_defs)
  have dots: "\<not> contains ''..'' (log_file \<lparr>log_file = ''evtx1.evtx''\<rparr>)" by simp
  have log: "os_path_isfile demo_world (os_path_join DATA_DIR (log_file \<lparr>log_file = ''evtx1.evtx''\<rparr>))"
    by (simp add: os_defs config_values DATA_DIR_def RESULTS_DIR_def suffix_to_prefix demo_defs)
  from chainsaw_is_a_stub [OF bin dots log] obtain r where
    "analyze_chainsaw \<lparr>log_file = ''evtx1.evtx''\<rparr> demo_world = (Inr r, demo_world)"
    "command_run r =
       join '' '' [CHAINSAW_PATH, ''hunt'', ''-f'', os_path_join DATA_DIR ''evtx1.evtx'',
                   ''--json'', ''-o'',
                   os_path_join RESULTS_DIR (''evtx1.evtx'' @ ''-chainsaw-report.json''),
                   ''--no-banner'']"
    by auto
  moreover have "join '' '' [CHAINSAW_PATH, ''hunt'', ''-f'', os_path_join DATA_DIR ''evtx1.evtx'',
                   ''--json'', ''-o'',
                   os_path_join RESULTS_DIR (''evtx1.evtx'' @ ''-chainsaw-report.json''),
                   ''--no-banner''] = ''/tools/chainsaw/chainsaw hunt -f /data/evtx1.evtx --json -o /data/results/evtx1.evtx-chainsaw-report.json --no-banner''"
    by (simp add: config_values DATA_DIR_def RESULTS_DIR_def os_path_join_def isabs_def suffix_to_prefix)
  ultimately show ?thesis using bin log by auto
qed

text \<open>
  C4, as stated, fails: the request for \<open>evtx1.evtx\<close> passes validation in the example
  container and is answered with 200, and no program has been started afterwards.
\<close>

theorem chainsaw_never_started:
  "os_path_exists demo_world CHAINSAW_PATH
   \<and> os_path_isfile demo_world (os_path_join DATA_DIR ''evtx1.evtx'')
   \<and> status_code (fst (analyze_chainsaw \<lparr>log_file = ''evtx1.evtx''\<rparr> demo_world)) = 200
   \<and> spawned (snd (analyze_chainsaw \<lparr>log_file = ''evtx1.evtx''\<rparr> demo_world)) = []"
  by (simp add: analyze_chainsaw_def os_defs config_values DATA_DIR_def RESULTS_DIR_def suffix_to_prefix demo_defs)

section \<open>Log file names with two dots\<close>

text \<open>
  C10, as amended. When the tool's binary is present, a \<open>log_file\<close> that contains \<open>..\<close> is
  rejected by each of the three endpoints that take a log file with the 404 \<open>Log file not
  found at ...\<close>, and the world is unchanged: nothing was written, removed or started.
  Whether the file exists plays no role.
\<close>

theorem dotdot_log_file_rejected:
  assumes "contains ''..'' (log_file rq)" and "contains ''..'' (log_file rs)"
  shows "(os_path_exists w HAYABUSA_PATH \<longrightarrow>
            analyze_hayabusa rq w =
              (Inl (HTTPException 404
                 (Dict [(''message'',
                         ''Log file not found at '' @ os_path_join DATA_DIR (log_file rq) @ ''.'')])), w))
       \<and> (os_path_exists w HAYABUSA_PATH \<longrightarrow>
            analyze_hayabusa_search rs w =
              (Inl (HTTPException 404
                 (Dict [(''message'',
                         ''Log file not found at '' @ os_path_join DATA_DIR (log_file rs) @ ''.'')])), w))
       \<and> (os_path_exists w CHAINSAW_PATH \<longrightarrow>
            analyze_chainsaw rq w =
              (Inl (HTTPException 404
                 (Dict [(''message'',
                         ''Log file not found at '' @ os_path_join DATA_DIR (log_file rq) @ ''.'')])), w))"
  using assms
  by (simp add: analyze_hayabusa_def analyze_hayabusa_search_def analyze_chainsaw_def Let_def)

text \<open>
  The existing log \<open>my..log.evtx\<close> of the example container and the traversal
  \<open>../evtx1.evtx\<close> are both answered with the 404.
\<close>

theorem dotdot_log_file_rejected_witness:
  "os_path_isfile demo_world ''/data/my..log.evtx''
   \<and> analyze_hayabusa \<lparr>log_file = ''my..log.evtx''\<rparr> demo_world =
       (Inl (HTTPException 404
          (Dict [(''message'', ''Log file not found at /data/my..log.evtx.'')])), demo_world)
   \<and> analyze_hayabusa_search \<lparr>log_file = ''../evtx1.evtx'', keyword = ''mimikatz''\<rparr> demo_world =
       (Inl (HTTPException 404
          (Dict [(''message'', ''Log file not found at /data/../evtx1.evtx.'')])), demo_world)
   \<and> analyze_chainsaw \<lparr>log_file = ''my..log.evtx''\<rparr> demo_world =
       (Inl (HTTPException 404
          (Dict [(''message'', ''Log file not found at /data/my..log.evtx.'')])), demo_world)"
proof -
  have h: "os_path_exists demo_world HAYABUSA_PATH" and c: "os_path_exists demo_world CHAINSAW_PATH"
    and f: "os_path_isfile demo_world ''/data/my..log.evtx''"
    by (simp_all add: os_defs config_values DATA_DIR_def RESULTS_DIR_def suffix_to_prefix demo_defs)
  have d1: "contains ''..'' (log_file \<lparr>log_file = ''my..log.evtx''\<rparr>)" by simp
  have d2: "contains ''..'' (log_file \<lparr>log_file = ''../evtx1.evtx'', keyword = ''mimikatz''\<rparr>)" by simp
  from dotdot_log_file_rejected [OF d1 d2, of demo_world] h c f show ?thesis
    by (simp add: os_path_join_def isabs_def DATA_DIR_def suffix_to_prefix)
qed

text \<open>
  C10, as stated, fails: where the Hayabusa binary is missing, the check for it comes
  first and the request with \<open>..\<close> in its log file is answered with 500.
\<close>

theorem dotdot_without_binary_is_500:
  "contains ''..'' ''../secret.evtx''
   \<and> status_code (fst (analyze_hayabusa \<lparr>log_file = ''../secret.evtx''\<rparr> bare_world)) = 500"
  by (simp add: analyze_hayabusa_def os_defs config_values DATA_DIR_def RESULTS_DIR_def suffix_to_prefix demo_defs)

section \<open>The aggregator on an input without the report suffix\<close>




section \<open>A tool that exits with an error\<close>

text \<open>
  C6. Take any of the four analysis endpoints and any request. If a program was started
  while the request was handled and it exited with a code other than 0, then the
  response has status 500 and its detail is the dictionary with the endpoint's message,
  the captured standard error and the captured standard output, unchanged. Such a
  response is an error and carries no output location. (The hunt endpoint starts no
  program, so for it there is nothing to show.)
\<close>

theorem nonzero_exit_is_500:
  assumes "post_analyze c w = (resp, w')"
    and "e \<in> set (drop (length (spawned w)) (spawned w'))"
    and "result e = Exited rc out err"
    and "rc \<noteq> 0"
  shows "status_code resp = 500 \<and>
         (\<exists>m. resp = Inl (HTTPException 500
                      (Dict [(''message'', m), (''stderr'', err), (''stdout'', out)])))"
proof (cases c)
  case (PostHayabusa rq)
  with assms(1) have "analyze_hayabusa rq w = (resp, w')" by simp
  from analyze_hayabusa_run [OF this] assms(2-4) show ?thesis by auto
next
  case (PostHayabusaSearch rs)
  with assms(1) have "analyze_hayabusa_search rs w = (resp, w')" by simp
  from analyze_hayabusa_search_run [OF this] assms(2-4) show ?thesis by auto
next
  case (PostChainsaw rq)
  with assms(1) have "w' = w" using analyze_chainsaw_world [of rq w] by simp
  with assms(2) show ?thesis by simp
next
  case (PostTakajo rt)
  with assms(1) have "analyze_takajo rt w = (resp, w')" by simp
  from analyze_takajo_run [OF this] assms(2-4) show ?thesis by auto
qed

lemmas run_defs = os_defs os_remove_def shutil_rmtree_def subprocess_run_def config_values
  DATA_DIR_def RESULTS_DIR_def suffix_to_prefix demo_defs

text \<open>
  In the container whose programs exit with code 1, the timeline run on \<open>evtx1.evtx\<close>
  is answered with the 500 that carries \<open>bad input\<close> and \<open>partial\<close>.
\<close>

theorem nonzero_exit_is_500_witness:
  "map result (spawned (snd (post_analyze (PostHayabusa \<lparr>log_file = ''evtx1.evtx''\<rparr>) failing_world)))
     = [Exited 1 ''partial'' ''bad input'']
   \<and> status_code (fst (post_analyze (PostHayabusa \<lparr>log_file = ''evtx1.evtx''\<rparr>) failing_world)) = 500
   \<and> (\<exists>m. fst (post_analyze (PostHayabusa \<lparr>log_file = ''evtx1.evtx''\<rparr>) failing_world) =
            Inl (HTTPException 500
                   (Dict [(''message'', m), (''stderr'', ''bad input''), (''stdout'', ''partial'')])))"
proof -
  let ?c = "PostHayabusa \<lparr>log_file = ''evtx1.evtx''\<rparr>"
  have log: "map result (spawned (snd (post_analyze ?c failing_world)))
               = [Exited 1 ''partial'' ''bad input'']"
    by (simp add: analyze_hayabusa_def Let_def run_defs)
  then obtain e where e: "spawned (snd (post_analyze ?c failing_world)) = [e]"
      "result e = Exited 1 ''partial'' ''bad input''" by auto
  have before: "spawned failing_world = []" by (simp add: demo_defs)
  have run: "post_analyze ?c failing_world =
               (fst (post_analyze ?c failing_world), snd (post_analyze ?c failing_world))" by simp
  have "e \<in> set (drop (length (spawned failing_world))
                  (spawned (snd (post_analyze ?c failing_world))))"
    using e(1) before by simp
  from nonzero_exit_is_500 [OF run this e(2)] log show ?thesis by simp
qed

section \<open>Cleaning before running\<close>

text \<open>
  What the cleaning step does. For the three endpoints that run a tool (timeline,
  search, aggregator) and the output location computed from the request:
  \<^item> every program started while the request is handled sees the files of before the
    request without what \<open>os.path.exists\<close> found at the output location, and nothing
    else is missing: without the node \<open>p\<close> found there for the timeline and the search
    tool, without every node at or below the directory \<open>p\<close> found there for the
    aggregator, and unchanged when \<open>os.path.exists\<close> found nothing;
  \<^item> for such a program \<open>os.path.exists\<close> finds nothing at the output location, and the
    files after the request are those the program left, given the files it saw;
  \<^item> if the request passed validation, \<open>os.path.exists\<close> holds for the output location
    and the removal raises, then the endpoint ends with that error (status 500; for
    the aggregator the 500 \<open>Failed to remove old analysis directory\<close>) and no program is
    started.
  So a file or a directory at the output location is gone when the tool starts, the
  directory of the aggregator with everything below it. A dangling symbolic link at the
  output location is not found by \<open>os.path.exists\<close>: it is among the files the program
  sees.
\<close>

theorem stale_output_removed_before_run:
  fixes rq :: AnalysisRequest and rs :: HayabusaSearchRequest and rt :: TakajoRequest
  shows
   "(analyze_hayabusa rq w = (resp, w') \<longrightarrow>
       (\<forall>e \<in> set (drop (length (spawned w)) (spawned w')).
          seen e =
            (case locate (getcwd w) (files w)
                    (os_path_join RESULTS_DIR (log_file rq @ ''-hayabusa-report.jsonl'')) of
               None \<Rightarrow> files w
             | Some p \<Rightarrow> filter (\<lambda>(q, n). q \<noteq> p) (files w)) \<and>
          locate (getcwd w) (seen e)
            (os_path_join RESULTS_DIR (log_file rq @ ''-hayabusa-report.jsonl'')) = None \<and>
          files w' = snd (programs w (argv e) (workdir e) (seen e))))
    \<and> (analyze_hayabusa_search rs w = (resp, w') \<longrightarrow>
       (\<forall>e \<in> set (drop (length (spawned w)) (spawned w')).
          seen e =
            (case locate (getcwd w) (files w)
                    (os_path_join RESULTS_DIR
                       (log_file rs @ ''-search-'' @ keyword rs @ ''.csv'')) of
               None \<Rightarrow> files w
             | Some p \<Rightarrow> filter (\<lambda>(q, n). q \<noteq> p) (files w)) \<and>
          locate (getcwd w) (seen e)
            (os_path_join RESULTS_DIR (log_file rs @ ''-search-'' @ keyword rs @ ''.csv'')) = None \<and>
          files w' = snd (programs w (argv e) (workdir e) (seen e))))
    \<and> (analyze_takajo rt w = (resp, w') \<longrightarrow>
       (\<forall>e \<in> set (drop (length (spawned w)) (spawned w')).
          seen e =
            (case locate (getcwd w) (files w)
                    (replace (abspath (getcwd w) (hayabusa_report_file rt))
                       ''-hayabusa-report.jsonl'' ''-takajo-analysis'') of
               None \<Rightarrow> files w
             | Some p \<Rightarrow> filter (\<lambda>(q, n). \<not> prefix p q) (files w)) \<and>
          locate (getcwd w) (seen e)
            (replace (abspath (getcwd w) (hayabusa_report_file rt))
               ''-hayabusa-report.jsonl'' ''-takajo-analysis'') = None \<and>
          files w' = snd (programs w (argv e) (workdir e) (seen e))))
    \<and> (os_path_exists w HAYABUSA_PATH \<and> \<not> contains ''..'' (log_file rq) \<and>
        os_path_isfile w (os_path_join DATA_DIR (log_file rq)) \<and>
        os_path_exists w (os_path_join RESULTS_DIR (log_file rq @ ''-hayabusa-report.jsonl'')) \<and>
        os_remove (os_path_join RESULTS_DIR (log_file rq @ ''-hayabusa-report.jsonl'')) w = (Inl x, w1)
        \<longrightarrow> analyze_hayabusa rq w = (Inl x, w) \<and>
            status_code (Inl x :: exn + AnalysisResponse) = 500)
    \<and> (os_path_exists w HAYABUSA_PATH \<and> \<not> contains ''..'' (log_file rs) \<and>
        os_path_isfile w (os_path_join DATA_DIR (log_file rs)) \<and>
        os_path_exists w
          (os_path_join RESULTS_DIR (log_file rs @ ''-search-'' @ keyword rs @ ''.csv'')) \<and>
        os_remove (os_path_join RESULTS_DIR (log_file rs @ ''-search-'' @ keyword rs @ ''.csv'')) w
          = (Inl x, w1)
        \<longrightarrow> analyze_hayabusa_search rs w = (Inl x, w) \<and>
            status_code (Inl x :: exn + AnalysisResponse) = 500)
    \<and> (os_path_exists w TAKAJO_PATH \<and>
        \<not> contains ''..'' (abspath (getcwd w) (hayabusa_report_file rt)) \<and>
        os_path_isfile w (abspath (getcwd w) (hayabusa_report_file rt)) \<and>
        os_path_exists w
          (replace (abspath (getcwd w) (hayabusa_report_file rt))
             ''-hayabusa-report.jsonl'' ''-takajo-analysis'') \<and>
        shutil_rmtree
          (replace (abspath (getcwd w) (hayabusa_report_file rt))
             ''-hayabusa-report.jsonl'' ''-takajo-analysis'') w = (Inl x, w1)
        \<longrightarrow> analyze_takajo rt w =
              (Inl (HTTPException 500 (Fmt ''Failed to remove old analysis directory: '' x)), w1) \<and>
            spawned w1 = spawned w)"
proof (intro conjI impI)
  assume "analyze_hayabusa rq w = (resp, w')"
  from analyze_hayabusa_run [OF this]
  show "\<forall>e \<in> set (drop (length (spawned w)) (spawned w')).
          seen e =
            (case locate (getcwd w) (files w)
                    (os_path_join RESULTS_DIR (log_file rq @ ''-hayabusa-report.jsonl'')) of
               None \<Rightarrow> files w
             | Some p \<Rightarrow> filter (\<lambda>(q, n). q \<noteq> p) (files w)) \<and>
          locate (getcwd w) (seen e)
            (os_path_join RESULTS_DIR (log_file rq @ ''-hayabusa-report.jsonl'')) = None \<and>
          files w' = snd (programs w (argv e) (workdir e) (seen e))"
    by auto
next
  assume "analyze_hayabusa_search rs w = (resp, w')"
  from analyze_hayabusa_search_run [OF this]
  show "\<forall>e \<in> set (drop (length (spawned w)) (spawned w')).
          seen e =
            (case locate (getcwd w) (files w)
                    (os_path_join RESULTS_DIR
                       (log_file rs @ ''-search-'' @ keyword rs @ ''.csv'')) of
               None \<Rightarrow> files w
             | Some p \<Rightarrow> filter (\<lambda>(q, n). q \<noteq> p) (files w)) \<and>
          locate (getcwd w) (seen e)
            (os_path_join RESULTS_DIR (log_file rs @ ''-search-'' @ keyword rs @ ''.csv'')) = None \<and>
          files w' = snd (programs w (argv e) (workdir e) (seen e))"
    by auto
next
  assume "analyze_takajo rt w = (resp, w')"
  from analyze_takajo_run [OF this]
  show "\<forall>e \<in> set (drop (length (spawned w)) (spawned w')).
          seen e =
            (case locate (getcwd w) (files w)
                    (replace (abspath (getcwd w) (hayabusa_report_file rt))
                       ''-hayabusa-report.jsonl'' ''-takajo-analysis'') of
               None \<Rightarrow> files w
             | Some p \<Rightarrow> filter (\<lambda>(q, n). \<not> prefix p q) (files w)) \<and>
          locate (getcwd w) (seen e)
            (replace (abspath (getcwd w) (hayabusa_report_file rt))
               ''-hayabusa-report.jsonl'' ''-takajo-analysis'') = None \<and>
          files w' = snd (programs w (argv e) (workdir e) (seen e))"
    by auto
next
  assume a: "os_path_exists w HAYABUSA_PATH \<and> \<not> contains ''..'' (log_file rq) \<and>
        os_path_isfile w (os_path_join DATA_DIR (log_file rq)) \<and>
        os_path_exists w (os_path_join RESULTS_DIR (log_file rq @ ''-hayabusa-report.jsonl'')) \<and>
        os_remove (os_path_join RESULTS_DIR (log_file rq @ ''-hayabusa-report.jsonl'')) w = (Inl x, w1)"
  then have "w1 = w" by (auto dest: os_remove_fail)
  with a show "analyze_hayabusa rq w = (Inl x, w)" by (simp add: analyze_hayabusa_def Let_def)
  from a os_remove_raises show "status_code (Inl x :: exn + AnalysisResponse) = 500" by fastforce
next
  assume a: "os_path_exists w HAYABUSA_PATH \<and> \<not> contains ''..'' (log_file rs) \<and>
        os_path_isfile w (os_path_join DATA_DIR (log_file rs)) \<and>
        os_path_exists w
          (os_path_join RESULTS_DIR (log_file rs @ ''-search-'' @ keyword rs @ ''.csv'')) \<and>
        os_remove (os_path_join RESULTS_DIR (log_file rs @ ''-search-'' @ keyword rs @ ''.csv'')) w
          = (Inl x, w1)"
  then have "w1 = w" by (auto dest: os_remove_fail)
  with a show "analyze_hayabusa_search rs w = (Inl x, w)"
    by (simp add: analyze_hayabusa_search_def Let_def)
  from a os_remove_raises show "status_code (Inl x :: exn + AnalysisResponse) = 500" by fastforce
next
  assume a: "os_path_exists w TAKAJO_PATH \<and>
        \<not> contains ''..'' (abspath (getcwd w) (hayabusa_report_file rt)) \<and>
        os_path_isfile w (abspath (getcwd w) (hayabusa_report_file rt)) \<and>
        os_path_exists w
          (replace (abspath (getcwd w) (hayabusa_report_file rt))
             ''-hayabusa-report.jsonl'' ''-takajo-analysis'') \<and>
        shutil_rmtree
          (replace (abspath (getcwd w) (hayabusa_report_file rt))
             ''-hayabusa-report.jsonl'' ''-takajo-analysis'') w = (Inl x, w1)"
  then show "analyze_takajo rt w =
              (Inl (HTTPException 500 (Fmt ''Failed to remove old analysis directory: '' x)), w1)"
    by (simp add: analyze_takajo_def Let_def)
  from a show "spawned w1 = spawned w" by (auto dest: shutil_rmtree_fail)
qed

text \<open>
  In the example container: the tools see the files of before without the old timeline
  report, without the old search result, and without the old aggregator directory and
  the file in it; the directories in the place of the report and of the search result
  for \<open>blocked.evtx\<close>, and the regular file \<open>notes.txt\<close> in the place of an output
  directory, end the requests with an error.
\<close>

theorem stale_output_removed_before_run_witness:
  "os_path_exists demo_world ''/data/results/evtx1.evtx-hayabusa-report.jsonl''
   \<and> map seen (spawned (snd (analyze_hayabusa \<lparr>log_file = ''evtx1.evtx''\<rparr> demo_world)))
       = [filter (\<lambda>(q, n). q \<noteq> [''data'', ''results'', ''evtx1.evtx-hayabusa-report.jsonl''])
            demo_files]
   \<and> os_path_exists demo_world ''/data/results/evtx1.evtx-search-mimikatz.csv''
   \<and> map seen (spawned (snd (analyze_hayabusa_search
           \<lparr>log_file = ''evtx1.evtx'', keyword = ''mimikatz''\<rparr> demo_world)))
       = [filter (\<lambda>(q, n). q \<noteq> [''data'', ''results'', ''evtx1.evtx-search-mimikatz.csv''])
            demo_files]
   \<and> os_path_exists demo_world ''/data/results/evtx1.evtx-takajo-analysis/summary.csv''
   \<and> map seen (spawned (snd (analyze_takajo
           \<lparr>hayabusa_report_file = ''/data/results/evtx1.evtx-hayabusa-report.jsonl''\<rparr> demo_world)))
       = [filter (\<lambda>(q, n). \<not> prefix [''data'', ''results'', ''evtx1.evtx-takajo-analysis''] q)
            demo_files]
   \<and> map_of
        (filter (\<lambda>(q, n). \<not> prefix [''data'', ''results'', ''evtx1.evtx-takajo-analysis''] q)
           demo_files)
        [''data'', ''results'', ''evtx1.evtx-takajo-analysis'', ''summary.csv''] = None
   \<and> analyze_hayabusa \<lparr>log_file = ''blocked.evtx''\<rparr> demo_world = (Inl IsADirectoryError, demo_world)
   \<and> analyze_hayabusa_search \<lparr>log_file = ''blocked.evtx'', keyword = ''mimikatz''\<rparr> demo_world
       = (Inl IsADirectoryError, demo_world)
   \<and> analyze_takajo \<lparr>hayabusa_report_file = ''/data/results/notes.txt''\<rparr> demo_world =
       (Inl (HTTPException 500
               (Fmt ''Failed to remove old analysis directory: '' NotADirectoryError)),
        demo_world)"
proof -
  let ?rq = "\<lparr>log_file = ''evtx1.evtx''\<rparr>"
  let ?rs = "\<lparr>log_file = ''evtx1.evtx'', keyword = ''mimikatz''\<rparr>"
  let ?rt = "\<lparr>hayabusa_report_file = ''/data/results/evtx1.evtx-hayabusa-report.jsonl''\<rparr>"
  let ?bq = "\<lparr>log_file = ''blocked.evtx''\<rparr>"
  let ?bs = "\<lparr>log_file = ''blocked.evtx'', keyword = ''mimikatz''\<rparr>"
  let ?bt = "\<lparr>hayabusa_report_file = ''/data/results/notes.txt''\<rparr>"
  have cwd: "getcwd demo_world = ''/app''" and none: "spawned demo_world = []"
    and fs: "files demo_world = demo_files"
    by (simp_all add: demo_defs)
  have ex1: "os_path_exists demo_world ''/data/results/evtx1.evtx-hayabusa-report.jsonl''"
    and ex2: "os_path_exists demo_world ''/data/results/evtx1.evtx-search-mimikatz.csv''"
    and ex3: "os_path_exists demo_world ''/data/results/evtx1.evtx-takajo-analysis/summary.csv''"
    by (simp_all add: os_defs demo_defs)
  have loc1: "locate ''/app'' demo_files ''/data/results/evtx1.evtx-hayabusa-report.jsonl''
                = Some [''data'', ''results'', ''evtx1.evtx-hayabusa-report.jsonl'']"
    and loc2: "locate ''/app'' demo_files ''/data/results/evtx1.evtx-search-mimikatz.csv''
                = Some [''data'', ''results'', ''evtx1.evtx-search-mimikatz.csv'']"
    and loc3: "locate ''/app'' demo_files ''/data/results/evtx1.evtx-takajo-analysis''
                = Some [''data'', ''results'', ''evtx1.evtx-takajo-analysis'']"
    by (simp_all add: os_defs demo_defs)
  have out1: "os_path_join RESULTS_DIR (''evtx1.evtx'' @ ''-hayabusa-report.jsonl'')
                = ''/data/results/evtx1.evtx-hayabusa-report.jsonl''"
    and out2: "os_path_join RESULTS_DIR (''evtx1.evtx'' @ ''-search-'' @ ''mimikatz'' @ ''.csv'')
                = ''/data/results/evtx1.evtx-search-mimikatz.csv''"
    by (simp_all add: os_path_join_def isabs_def RESULTS_DIR_def suffix_to_prefix)
  have rp: "abspath ''/app'' ''/data/results/evtx1.evtx-hayabusa-report.jsonl''
              = ''/data/results/evtx1.evtx-hayabusa-report.jsonl''"
    by (simp add: abspath_def normpath_def norm_step_def isabs_def)
  have out3: "replace ''/data/results/evtx1.evtx-hayabusa-report.jsonl''
                ''-hayabusa-report.jsonl'' ''-takajo-analysis''
              = ''/data/results/evtx1.evtx-takajo-analysis''"
    by (simp add: replace_def)
  have n1: "length (spawned (snd (analyze_hayabusa ?rq demo_world))) = 1"
    by (simp add: analyze_hayabusa_def Let_def run_defs)
  have n2: "length (spawned (snd (analyze_hayabusa_search ?rs demo_world))) = 1"
    by (simp add: analyze_hayabusa_search_def Let_def run_defs)
  have n3: "length (spawned (snd (analyze_takajo ?rt demo_world))) = 1"
    by (simp add: analyze_takajo_def Let_def run_defs rp out3 cwd)
  note runs = stale_output_removed_before_run
    [where rq = ?rq and rs = ?rs and rt = ?rt and w = demo_world]
  note run1 = runs [THEN conjunct1, rule_format, OF surjective_pairing]
  note run2 = runs [THEN conjunct2, THEN conjunct1, rule_format, OF surjective_pairing]
  note run3 = runs [THEN conjunct2, THEN conjunct2, THEN conjunct1, rule_format,
                    OF surjective_pairing]
  have a1: "map seen (spawned (snd (analyze_hayabusa ?rq demo_world)))
       = [filter (\<lambda>(q, n). q \<noteq> [''data'', ''results'', ''evtx1.evtx-hayabusa-report.jsonl''])
            demo_files]"
  proof -
    from n1 obtain e where e: "spawned (snd (analyze_hayabusa ?rq demo_world)) = [e]"
      by (cases "spawned (snd (analyze_hayabusa ?rq demo_world))") auto
    with run1 [of e] none have
      "seen e = (case locate (getcwd demo_world) (files demo_world)
                        (os_path_join RESULTS_DIR (log_file ?rq @ ''-hayabusa-report.jsonl'')) of
                   None \<Rightarrow> files demo_world
                 | Some p \<Rightarrow> filter (\<lambda>(q, n). q \<noteq> p) (files demo_world))"
      by simp
    then have "seen e =
        filter (\<lambda>(q, n). q \<noteq> [''data'', ''results'', ''evtx1.evtx-hayabusa-report.jsonl''])
          demo_files"
      by (simp only: cwd fs AnalysisRequest.simps out1 loc1 option.case)
    with e show ?thesis by simp
  qed
  have a2: "map seen (spawned (snd (analyze_hayabusa_search ?rs demo_world)))
       = [filter (\<lambda>(q, n). q \<noteq> [''data'', ''results'', ''evtx1.evtx-search-mimikatz.csv''])
            demo_files]"
  proof -
    from n2 obtain e where e: "spawned (snd (analyze_hayabusa_search ?rs demo_world)) = [e]"
      by (cases "spawned (snd (analyze_hayabusa_search ?rs demo_world))") auto
    with run2 [of e] none have
      "seen e = (case locate (getcwd demo_world) (files demo_world)
                        (os_path_join RESULTS_DIR
                           (log_file ?rs @ ''-search-'' @ keyword ?rs @ ''.csv'')) of
                   None \<Rightarrow> files demo_world
                 | Some p \<Rightarrow> filter (\<lambda>(q, n). q \<noteq> p) (files demo_world))"
      by simp
    then have "seen e =
        filter (\<lambda>(q, n). q \<noteq> [''data'', ''results'', ''evtx1.evtx-search-mimikatz.csv''])
          demo_files"
      by (simp only: cwd fs AnalysisRequest.simps HayabusaSearchRequest.simps out2 loc2
          option.case)
    with e show ?thesis by simp
  qed
  have a3: "map seen (spawned (snd (analyze_takajo ?rt demo_world)))
       = [filter (\<lambda>(q, n). \<not> prefix [''data'', ''results'', ''evtx1.evtx-takajo-analysis''] q)
            demo_files]"
  proof -
    from n3 obtain e where e: "spawned (snd (analyze_takajo ?rt demo_world)) = [e]"
      by (cases "spawned (snd (analyze_takajo ?rt demo_world))") auto
    with run3 [of e] none have
      "seen e = (case locate (getcwd demo_world) (files demo_world)
                        (replace (abspath (getcwd demo_world) (hayabusa_report_file ?rt))
                           ''-hayabusa-report.jsonl'' ''-takajo-analysis'') of
                   None \<Rightarrow> files demo_world
                 | Some p \<Rightarrow> filter (\<lambda>(q, n). \<not> prefix p q) (files demo_world))"
      by simp
    then have "seen e =
        filter (\<lambda>(q, n). \<not> prefix [''data'', ''results'', ''evtx1.evtx-takajo-analysis''] q)
          demo_files"
      by (simp only: cwd fs TakajoRequest.simps rp out3 loc3 option.case)
    with e show ?thesis by simp
  qed
  have gone: "map_of
        (filter (\<lambda>(q, n). \<not> prefix [''data'', ''results'', ''evtx1.evtx-takajo-analysis''] q)
           demo_files)
        [''data'', ''results'', ''evtx1.evtx-takajo-analysis'', ''summary.csv''] = None"
    by (simp add: map_of_filter_prefix)
  have bins: "os_path_exists demo_world HAYABUSA_PATH" "os_path_exists demo_world TAKAJO_PATH"
    by (simp_all add: os_defs config_values demo_defs)
  note blocked = stale_output_removed_before_run
    [where rq = ?bq and rs = ?bs and rt = ?bt and w = demo_world and ?w1.0 = demo_world]
  have a4: "analyze_hayabusa ?bq demo_world = (Inl IsADirectoryError, demo_world)"
  proof -
    have "os_path_isfile demo_world (os_path_join DATA_DIR (log_file ?bq))"
      and "os_path_exists demo_world
             (os_path_join RESULTS_DIR (log_file ?bq @ ''-hayabusa-report.jsonl''))"
      and "os_remove (os_path_join RESULTS_DIR (log_file ?bq @ ''-hayabusa-report.jsonl''))
             demo_world = (Inl IsADirectoryError, demo_world)"
      by (simp_all add: run_defs)
    with bins blocked [where x = IsADirectoryError] show ?thesis by simp
  qed
  have a5: "analyze_hayabusa_search ?bs demo_world = (Inl IsADirectoryError, demo_world)"
  proof -
    have "os_path_isfile demo_world (os_path_join DATA_DIR (log_file ?bs))"
      and "os_path_exists demo_world
             (os_path_join RESULTS_DIR (log_file ?bs @ ''-search-'' @ keyword ?bs @ ''.csv''))"
      and "os_remove (os_path_join RESULTS_DIR (log_file ?bs @ ''-search-'' @ keyword ?bs @ ''.csv''))
             demo_world = (Inl IsADirectoryError, demo_world)"
      by (simp_all add: run_defs)
    with bins blocked [where x = IsADirectoryError] show ?thesis by simp
  qed
  have a6: "analyze_takajo ?bt demo_world =
       (Inl (HTTPException 500
               (Fmt ''Failed to remove old analysis directory: '' NotADirectoryError)),
        demo_world)"
  proof -
    have rpn: "abspath ''/app'' ''/data/results/notes.txt'' = ''/data/results/notes.txt''"
      by (simp add: abspath_def normpath_def norm_step_def isabs_def)
    have outn: "replace ''/data/results/notes.txt'' ''-hayabusa-report.jsonl'' ''-takajo-analysis''
                  = ''/data/results/notes.txt''"
      by (simp add: replace_def)
    have "os_path_isfile demo_world ''/data/results/notes.txt''"
      and "os_path_exists demo_world ''/data/results/notes.txt''"
      and "shutil_rmtree ''/data/results/notes.txt'' demo_world
             = (Inl NotADirectoryError, demo_world)"
      by (simp_all add: run_defs)
    with bins blocked [where x = NotADirectoryError] show ?thesis by (simp add: cwd rpn outn)
  qed
  from ex1 ex2 ex3 a1 a2 a3 gone a4 a5 a6 show ?thesis by simp
qed

text \<open>
  C5. In the container where a dangling symbolic link sits at the output location of the
  timeline tool for \<open>evtx1.evtx\<close>, the request passes validation and succeeds. The guard
  \<open>os.path.exists\<close> does not find the link, so nothing is removed: the tool is started
  with this output path, and the files it sees are the files of before, the node at the
  output location included.
\<close>

theorem dangling_link_survives_cleaning:
  "node_at (files stale_link_world) [''data'', ''results'', ''evtx1.evtx-hayabusa-report.jsonl'']
     = Some Dangling
   \<and> status_code (fst (analyze_hayabusa \<lparr>log_file = ''evtx1.evtx''\<rparr> stale_link_world)) = 200
   \<and> map argv (spawned (snd (analyze_hayabusa \<lparr>log_file = ''evtx1.evtx''\<rparr> stale_link_world))) =
       [[''/tools/hayabusa/hayabusa'', ''json-timeline'', ''-f'', ''/data/evtx1.evtx'', ''-o'',
         ''/data/results/evtx1.evtx-hayabusa-report.jsonl'', ''-L'', ''--no-wizard'']]
   \<and> map seen (spawned (snd (analyze_hayabusa \<lparr>log_file = ''evtx1.evtx''\<rparr> stale_link_world)))
       = [files stale_link_world]"
  by (simp add: analyze_hayabusa_def Let_def run_defs)

section \<open>Absolute log file names\<close>

text \<open>
  C2. The log file name \<open>/etc/passwd\<close> contains no \<open>..\<close>, and \<open>os.path.join\<close> drops
  the data root and the results root in front of an absolute name. In the example
  container the request passes validation: the existing file
  \<open>/etc/passwd-hayabusa-report.jsonl\<close> is removed and the tool is started on
  \<open>/etc/passwd\<close> with that output path, all outside the two roots.
\<close>

theorem absolute_log_file_leaves_the_roots:
  "os_path_isfile demo_world ''/etc/passwd''
   \<and> os_path_exists demo_world ''/etc/passwd-hayabusa-report.jsonl''
   \<and> map argv (spawned (snd (analyze_hayabusa \<lparr>log_file = ''/etc/passwd''\<rparr> demo_world))) =
       [[''/tools/hayabusa/hayabusa'', ''json-timeline'', ''-f'', ''/etc/passwd'', ''-o'',
         ''/etc/passwd-hayabusa-report.jsonl'', ''-L'', ''--no-wizard'']]
   \<and> \<not> os_path_exists (snd (analyze_hayabusa \<lparr>log_file = ''/etc/passwd''\<rparr> demo_world))
         ''/etc/passwd-hayabusa-report.jsonl''"
  by (simp add: analyze_hayabusa_def Let_def run_defs)

text \<open>
  For a log file name that is not absolute, the output location of the timeline tool is
  the results root, a slash, the name and the report suffix.
\<close>

lemma relative_log_file_output_location:
  "\<not> isabs L \<Longrightarrow>
   os_path_join RESULTS_DIR (L @ ''-hayabusa-report.jsonl'')
     = ''/data/results/'' @ L @ ''-hayabusa-report.jsonl''"
  by (cases L) (auto simp: os_path_join_def isabs_def RESULTS_DIR_def suffix_to_prefix)

text \<open>
  C8. For the accepted log file name \<open>/etc/passwd\<close> the reported output location is
  \<open>/etc/passwd-hayabusa-report.jsonl\<close>, which is not \<open>/data/results/\<close> followed by the
  name and the report suffix.
\<close>

theorem absolute_log_file_output_location:
  "map_sum id output_location (fst (analyze_hayabusa \<lparr>log_file = ''/etc/passwd''\<rparr> demo_world))
     = Inr ''/etc/passwd-hayabusa-report.jsonl''
   \<and> ''/etc/passwd-hayabusa-report.jsonl'' \<noteq> ''/data/results/'' @ ''/etc/passwd'' @ ''-hayabusa-report.jsonl''"
  by (simp add: analyze_hayabusa_def Let_def run_defs)

end
